theory Spec2Isabelle
  imports Main "HOL-Library.Sublist" "HOL-Library.Char_ord" "HOL-Library.List_Lexorder"
begin

section \<open>Python values, dictionaries and exceptions\<close>

text \<open>
  The fields of an article record are JSON strings or JSON null (Python \<^verbatim>\<open>None\<close>).
  A Python string is a list of characters; characters are 8-bit here.
\<close>

datatype pyval = PyNone | PyStr string

text \<open>Truth value of a Python object: \<^verbatim>\<open>None\<close> and the empty string are falsy.\<close>

definition truthy :: "pyval \<Rightarrow> bool" where
  "truthy v = (case v of PyNone \<Rightarrow> False | PyStr s \<Rightarrow> s \<noteq> [])"

text \<open>\<^verbatim>\<open>str(v)\<close>, as an f-string formats a value.\<close>

definition py_str :: "pyval \<Rightarrow> string" where
  "py_str v = (case v of PyNone \<Rightarrow> ''None'' | PyStr s \<Rightarrow> s)"

text \<open>An article is a dictionary from field names to values.\<close>

type_synonym article = "string \<rightharpoonup> pyval"

text \<open>\<^verbatim>\<open>d.get(k)\<close>: the value stored under \<open>k\<close>, \<^verbatim>\<open>None\<close> when the key is absent.\<close>

definition dict_get :: "article \<Rightarrow> string \<Rightarrow> pyval" where
  "dict_get d k = (case d k of None \<Rightarrow> PyNone | Some v \<Rightarrow> v)"

text \<open>\<^verbatim>\<open>d.get(k, default)\<close>: the default replaces an absent key only; a key stored
  with the value \<^verbatim>\<open>None\<close> yields \<^verbatim>\<open>None\<close>.\<close>

definition dict_get_default :: "article \<Rightarrow> string \<Rightarrow> pyval \<Rightarrow> pyval" where
  "dict_get_default d k dflt = (case d k of None \<Rightarrow> dflt | Some v \<Rightarrow> v)"

text \<open>
  Exceptions, by the classes the handlers of \<^verbatim>\<open>main.py\<close> distinguish:
  \<^verbatim>\<open>requests.exceptions.RequestException\<close>, \<^verbatim>\<open>ValueError\<close> (raised by
  \<^verbatim>\<open>urlparse\<close>), \<^verbatim>\<open>IndexError\<close> and \<^verbatim>\<open>AttributeError\<close> (raised while
  reading a chat response), and any other \<^verbatim>\<open>Exception\<close>. The string is the message.
\<close>

datatype exn =
    RequestException string
  | ValueError string
  | IndexError string
  | AttributeError string
  | OtherException string

definition is_RequestException :: "exn \<Rightarrow> bool" where
  "is_RequestException e = (case e of RequestException _ \<Rightarrow> True | _ \<Rightarrow> False)"

section \<open>String helpers of the Python runtime\<close>

text \<open>\<^verbatim>\<open>str.isspace\<close> on the characters below 256.\<close>

definition is_space :: "char \<Rightarrow> bool" where
  "is_space c = (of_char c \<in> {9, 10, 11, 12, 13, 28, 29, 30, 31, 32, 133, 160 :: nat})"

text \<open>\<^verbatim>\<open>s.strip()\<close>\<close>

definition strip :: "string \<Rightarrow> string" where
  "strip s = rev (dropWhile is_space (rev (dropWhile is_space s)))"

text \<open>\<^verbatim>\<open>s.split()\<close>: the maximal runs of non-space characters. The first argument
  is the word read so far.\<close>

fun split_from :: "string \<Rightarrow> string \<Rightarrow> string list" where
  "split_from w [] = (if w = [] then [] else [w])"
| "split_from w (c # cs) =
     (if is_space c then (if w = [] then split_from [] cs else w # split_from [] cs)
      else split_from (w @ [c]) cs)"

definition split :: "string \<Rightarrow> string list" where
  "split s = split_from [] s"

text \<open>\<^verbatim>\<open>" ".join(ws)\<close>\<close>

fun join_space :: "string list \<Rightarrow> string" where
  "join_space [] = []"
| "join_space [w] = w"
| "join_space (w # v # ws) = w @ '' '' @ join_space (v # ws)"

section \<open>The collaborators of the pipeline\<close>

subsection \<open>The fuzzy scorer\<close>

text \<open>
  Modelled from the spec: \<^verbatim>\<open>fuzz.token_sort_ratio\<close> of the library \<^verbatim>\<open>thefuzz\<close>,
  which \<^verbatim>\<open>main.py\<close> imports and which is not part of the repository. The spec
  (section 4.1, item 5) asks for a symmetric, case-normalised, token-order-insensitive
  ratio in the range 0 to 100, and for the score of two empty titles to be maximal. The
  definition follows the library's algorithm: a score of 0 when either argument is
  \<^verbatim>\<open>None\<close>; otherwise both strings are processed (characters from 128 on are removed,
  every character that is not a letter, a digit or an underscore becomes a space,
  letters are lowered, the ends are stripped), split into tokens, the tokens sorted and
  joined by one space, and the two results compared by the normalised insertion/deletion
  similarity \<open>2 * lcs / (length a + length b)\<close>, scaled to 100 and rounded to the nearest
  integer, halves to the even one. The library computes the quotient in double
  precision; it is exact here.
\<close>

definition is_word_char :: "char \<Rightarrow> bool" where
  "is_word_char c =
     (let n = (of_char c :: nat)
      in (48 \<le> n \<and> n \<le> 57) \<or> (65 \<le> n \<and> n \<le> 90) \<or> (97 \<le> n \<and> n \<le> 122) \<or> n = 95)"

definition lower_char :: "char \<Rightarrow> char" where
  "lower_char c =
     (let n = (of_char c :: nat) in if 65 \<le> n \<and> n \<le> 90 then char_of (n + 32) else c)"

definition full_process :: "string \<Rightarrow> string" where
  "full_process s =
     map lower_char
       (strip (map (\<lambda>c. if is_word_char c then c else CHR '' '')
         (filter (\<lambda>c. (of_char c :: nat) < 128) s)))"

definition process_and_sort :: "string \<Rightarrow> string" where
  "process_and_sort s = join_space (sort (split (full_process s)))"

text \<open>Length of a longest common subsequence.\<close>

fun lcs :: "string \<Rightarrow> string \<Rightarrow> nat" where
  "lcs [] ys = 0"
| "lcs (x # xs) [] = 0"
| "lcs (x # xs) (y # ys) =
     (if x = y then Suc (lcs xs ys) else max (lcs (x # xs) ys) (lcs xs (y # ys)))"

text \<open>\<^verbatim>\<open>int(round(100 * n / d))\<close> for \<open>d > 0\<close>, with Python's rounding of halves
  to the even integer.\<close>

definition round_half_even :: "nat \<Rightarrow> nat \<Rightarrow> int" where
  "round_half_even n d =
     (let q = n div d; r = n mod d
      in if 2 * r < d then int q
         else if d < 2 * r then int q + 1
         else if even q then int q else int q + 1)"

text \<open>
  The same length, computed row by row: \<open>lcs_row xs ys\<close> lists the length for \<open>xs\<close>
  against every suffix of \<open>ys\<close>, the longest suffix first.
\<close>

definition lcs_cell :: "char \<Rightarrow> char \<Rightarrow> nat \<Rightarrow> nat list \<Rightarrow> nat list \<Rightarrow> nat list" where
  "lcs_cell x y p prev cur = (if x = y then Suc (hd prev) else max (hd cur) p) # cur"

fun lcs_next_row :: "char \<Rightarrow> string \<Rightarrow> nat list \<Rightarrow> nat list" where
  "lcs_next_row x [] prev = [0]"
| "lcs_next_row x (y # ys) prev = lcs_cell x y (hd prev) (tl prev) (lcs_next_row x ys (tl prev))"

fun lcs_row :: "string \<Rightarrow> string \<Rightarrow> nat list" where
  "lcs_row [] ys = replicate (Suc (length ys)) 0"
| "lcs_row (x # xs) ys = lcs_next_row x ys (lcs_row xs ys)"

definition lcs_length :: "string \<Rightarrow> string \<Rightarrow> nat" where
  "lcs_length xs ys = hd (lcs_row xs ys)"

definition ratio :: "string \<Rightarrow> string \<Rightarrow> int" where
  "ratio a b =
     (if length a + length b = 0 then 100
      else round_half_even (200 * lcs_length a b) (length a + length b))"

definition fuzz_token_sort_ratio :: "pyval \<Rightarrow> pyval \<Rightarrow> int" where
  "fuzz_token_sort_ratio s1 s2 =
     (case s1 of
        PyNone \<Rightarrow> 0
      | PyStr a \<Rightarrow>
          (case s2 of
             PyNone \<Rightarrow> 0
           | PyStr b \<Rightarrow> ratio (process_and_sort a) (process_and_sort b)))"

subsection \<open>The URL parser\<close>

text \<open>
  Modelled from the spec: \<^verbatim>\<open>urlparse(url).netloc\<close> of Python's standard library,
  which is not part of the repository; the spec (section 4.3) calls its result the
  hostname extracted from the link. The definition follows the library as far as the
  pipeline depends on it: a leading scheme (a letter followed by letters, digits, \<open>+\<close>, \<open>-\<close> or \<open>.\<close>, up
  to the first colon) is split off; when the rest starts with two slashes the network
  location is what follows them up to the first \<open>/\<close>, \<open>?\<close> or \<open>#\<close>, and is empty
  otherwise; a network location with one kind of square bracket and not the other
  raises \<^verbatim>\<open>ValueError\<close>. The further validation of recent Python versions (control
  characters, bracketed hosts, normalisation of non-ASCII hosts) is not modelled.
\<close>

definition is_scheme_char :: "char \<Rightarrow> bool" where
  "is_scheme_char c =
     (let n = (of_char c :: nat)
      in (48 \<le> n \<and> n \<le> 57) \<or> (65 \<le> n \<and> n \<le> 90) \<or> (97 \<le> n \<and> n \<le> 122)
         \<or> c \<in> {CHR ''+'', CHR ''-'', CHR ''.''})"

definition is_ascii_alpha :: "char \<Rightarrow> bool" where
  "is_ascii_alpha c =
     (let n = (of_char c :: nat) in (65 \<le> n \<and> n \<le> 90) \<or> (97 \<le> n \<and> n \<le> 122))"

definition strip_scheme :: "string \<Rightarrow> string" where
  "strip_scheme url =
     (let pre = takeWhile (\<lambda>c. c \<noteq> CHR '':'') url
      in if length pre < length url \<and> pre \<noteq> [] \<and> is_ascii_alpha (hd pre)
            \<and> list_all is_scheme_char pre
         then drop (Suc (length pre)) url
         else url)"

definition urlparse_netloc :: "string \<Rightarrow> exn + string" where
  "urlparse_netloc url =
     (let rest = strip_scheme url
      in if take 2 rest = ''//'' then
           (let netloc = takeWhile (\<lambda>c. c \<notin> {CHR ''/'', CHR ''?'', CHR ''#''}) (drop 2 rest)
            in if (CHR ''['' \<in> set netloc) \<noteq> (CHR '']'' \<in> set netloc)
               then Inl (ValueError ''Invalid IPv6 URL'')
               else Inr netloc)
         else Inr [])"

subsection \<open>The ledger\<close>

text \<open>
  Modelled from the spec: the worksheet of the library \<^verbatim>\<open>gspread\<close>, which is not
  part of the repository. The worksheet is the list of its rows, a row the list of its
  cells. Following the spec (section 6: ``read entire column N as list of strings''),
  \<^verbatim>\<open>worksheet.col_values(n)\<close> yields one string per row, the text of the row's
  \<open>n\<close>-th cell (columns count from 1), empty for an empty or missing cell, and
  \<^verbatim>\<open>worksheet.append_rows(rows)\<close> puts the rows after the existing ones. How the
  sheet reinterprets a value entered as by a user, and how the service trims empty cells
  at the end of a column, is outside the model.
\<close>

type_synonym row = "pyval list"
type_synonym worksheet = "row list"

definition cell_text :: "nat \<Rightarrow> row \<Rightarrow> string" where
  "cell_text n r =
     (if 0 < n \<and> n \<le> length r
      then (case r ! (n - 1) of PyNone \<Rightarrow> [] | PyStr s \<Rightarrow> s)
      else [])"

definition col_values :: "worksheet \<Rightarrow> nat \<Rightarrow> string list" where
  "col_values worksheet n = map (cell_text n) worksheet"

definition append_rows :: "worksheet \<Rightarrow> row list \<Rightarrow> worksheet" where
  "append_rows worksheet rows = worksheet @ rows"

subsection \<open>The environment of one run\<close>

text \<open>
  What one run of \<^verbatim>\<open>main\<close> meets outside the program:
  \<^item> \<open>sheets_connect\<close>: the outcome of the first \<^verbatim>\<open>try\<close> block (credentials,
    \<^verbatim>\<open>gc.open\<close>, \<^verbatim>\<open>sh.sheet1\<close>): the worksheet or the exception raised;
  \<^item> \<open>newsdata_fetch\<close>: the outcome of the second \<^verbatim>\<open>try\<close> block: the list under
    \<^verbatim>\<open>"results"\<close> or the exception raised;
  \<^item> \<open>openai_api_key\<close>: the module attribute \<^verbatim>\<open>openai.api_key\<close>;
  \<^item> \<open>chat_completions_create\<close>: the answer of the chat backend to a prompt: the
    \<^verbatim>\<open>message.content\<close> of each choice, or the exception raised;
  \<^item> \<open>token_sort_ratio\<close>: the fuzzy scorer;
  \<^item> \<open>netloc_of\<close>: \<^verbatim>\<open>urlparse(link).netloc\<close>, or the exception raised;
  \<^item> \<open>utcnow_isoformat\<close>: \<^verbatim>\<open>datetime.now(timezone.utc).isoformat()\<close>.
  Calls on the worksheet after a successful connection return normally.
\<close>

record env =
  sheets_connect :: "exn + worksheet"
  newsdata_fetch :: "exn + article list"
  openai_api_key :: pyval
  chat_completions_create :: "string \<Rightarrow> exn + pyval list"
  token_sort_ratio :: "pyval \<Rightarrow> pyval \<Rightarrow> int"
  netloc_of :: "string \<Rightarrow> exn + string"
  utcnow_isoformat :: string

text \<open>The lines the program prints.\<close>

datatype event =
    Starting
  | Connected
  | ErrorConnecting exn
  | Fetching
  | ErrorFetching exn
  | Found nat
  | SkippingSimilar pyval
  | ErrorCallingOpenAI exn
  | Added nat
  | NoNewArticles

section \<open>The summarizer: \<^verbatim>\<open>get_ai_summary\<close>\<close>

definition summary_prompt :: "pyval \<Rightarrow> pyval \<Rightarrow> string" where
  "summary_prompt article_title article_description =
     ''Summarize the following news article in a single, insightful sentence. Title: ''
       @ [CHR 0x27] @ py_str article_title @ [CHR 0x27] @ ''. Description: ''
       @ [CHR 0x27] @ py_str article_description @ [CHR 0x27]"

text \<open>
  The result is the summary and the lines printed. An exception inside the
  \<^verbatim>\<open>try\<close> block (from the backend, from \<^verbatim>\<open>choices[0]\<close> on an empty list, from
  \<^verbatim>\<open>.strip()\<close> on a null content) is caught by \<^verbatim>\<open>except Exception\<close>.
\<close>

definition get_ai_summary :: "env \<Rightarrow> pyval \<Rightarrow> pyval \<Rightarrow> string \<times> event list" where
  "get_ai_summary env article_title article_description =
     (if \<not> (truthy article_description \<and> truthy (openai_api_key env))
      then (''Summary not available.'', [])
      else
        (case chat_completions_create env (summary_prompt article_title article_description) of
           Inl e \<Rightarrow> (''AI summary failed.'', [ErrorCallingOpenAI e])
         | Inr choices \<Rightarrow>
             (case choices of
                [] \<Rightarrow> (''AI summary failed.'',
                        [ErrorCallingOpenAI (IndexError ''list index out of range'')])
              | content # _ \<Rightarrow>
                  (case content of
                     PyNone \<Rightarrow> (''AI summary failed.'',
                                 [ErrorCallingOpenAI
                                    (AttributeError
                                      ([CHR 0x27] @ ''NoneType'' @ [CHR 0x27]
                                       @ '' object has no attribute ''
                                       @ [CHR 0x27] @ ''strip'' @ [CHR 0x27]))])
                   | PyStr s \<Rightarrow> (strip s, [])))))"

section \<open>The pipeline: \<^verbatim>\<open>main\<close>\<close>

definition SIMILARITY_THRESHOLD :: int where
  "SIMILARITY_THRESHOLD = 50"

text \<open>The variables of the loop, and the lines printed so far.\<close>

record state =
  existing_links :: "pyval set"
  existing_titles :: "pyval set"
  rows_to_add :: "row list"
  printed :: "event list"

text \<open>
  The inner loop over \<open>existing_titles\<close> sets the flag as soon as one score exceeds
  the threshold. The flag does not depend on the order in which the set is visited;
  the score printed with the skipped title does, and is left out of the printed line.
\<close>

definition is_semantically_duplicate :: "env \<Rightarrow> pyval set \<Rightarrow> pyval \<Rightarrow> bool" where
  "is_semantically_duplicate env titles title =
     (\<exists>existing_title \<in> titles. token_sort_ratio env title existing_title > SIMILARITY_THRESHOLD)"

text \<open>Lines 96 and 97: the row of an accepted article.\<close>

definition favicon_url :: "string \<Rightarrow> string" where
  "favicon_url domain = ''https://www.google.com/s2/favicons?domain='' @ domain @ ''&sz=64''"

definition make_row :: "env \<Rightarrow> article \<Rightarrow> string \<Rightarrow> string \<Rightarrow> row" where
  "make_row env article ai_summary domain =
     (let timestamp = dict_get_default article ''pubDate'' (PyStr (utcnow_isoformat env))
      in [PyStr '''', dict_get article ''title'', PyStr ai_summary,
          dict_get article ''image_url'', dict_get article ''source_id'',
          dict_get article ''link'', PyStr (favicon_url domain), timestamp,
          PyStr ''Published''])"

text \<open>The body of the loop, lines 81 to 101. \<open>Inl\<close> is an exception that leaves
  \<^verbatim>\<open>main\<close>.\<close>

definition process_article :: "env \<Rightarrow> state \<Rightarrow> article \<Rightarrow> exn + state" where
  "process_article env s article =
     (let source_link = dict_get article ''link'';
          title = dict_get article ''title''
      in if truthy source_link \<and> source_link \<notin> existing_links s then
           if is_semantically_duplicate env (existing_titles s) title
           then Inr (s\<lparr>printed := printed s @ [SkippingSimilar title]\<rparr>)
           else
             (let (ai_summary, out) = get_ai_summary env title (dict_get article ''description'')
              in case netloc_of env (py_str source_link) of
                   Inl e \<Rightarrow> Inl e
                 | Inr domain \<Rightarrow>
                     Inr (s\<lparr>rows_to_add := rows_to_add s @ [make_row env article ai_summary domain],
                            existing_links := insert source_link (existing_links s),
                            existing_titles := insert title (existing_titles s),
                            printed := printed s @ out\<rparr>))
         else Inr s)"

fun process_articles :: "env \<Rightarrow> state \<Rightarrow> article list \<Rightarrow> exn + state" where
  "process_articles env s [] = Inr s"
| "process_articles env s (article # articles) =
     (case process_article env s article of
        Inl e \<Rightarrow> Inl e
      | Inr s' \<Rightarrow> process_articles env s' articles)"

text \<open>What a run leaves behind: the lines printed and the rows handed to
  \<^verbatim>\<open>append_rows\<close> (none when it is not called).\<close>

record run =
  stdout :: "event list"
  appended :: "row list"

definition initial_state :: "worksheet \<Rightarrow> nat \<Rightarrow> state" where
  "initial_state worksheet n =
     \<lparr>existing_links = PyStr ` set (col_values worksheet 6),
      existing_titles = PyStr ` set (col_values worksheet 2),
      rows_to_add = [],
      printed = [Starting, Connected, Fetching, Found n]\<rparr>"

definition main :: "env \<Rightarrow> exn + run" where
  "main env =
     (case sheets_connect env of
        Inl e \<Rightarrow> Inr \<lparr>stdout = [Starting, ErrorConnecting e], appended = []\<rparr>
      | Inr worksheet \<Rightarrow>
          (case newsdata_fetch env of
             Inl e \<Rightarrow>
               if is_RequestException e
               then Inr \<lparr>stdout = [Starting, Connected, Fetching, ErrorFetching e], appended = []\<rparr>
               else Inl e
           | Inr articles \<Rightarrow>
               (case process_articles env (initial_state worksheet (length articles)) (rev articles) of
                  Inl e \<Rightarrow> Inl e
                | Inr s \<Rightarrow>
                    if rows_to_add s \<noteq> []
                    then Inr \<lparr>stdout = printed s @ [Added (length (rows_to_add s))],
                              appended = rows_to_add s\<rparr>
                    else Inr \<lparr>stdout = printed s @ [NoNewArticles], appended = []\<rparr>)))"

text \<open>The worksheet after a run that returned.\<close>

definition ledger_after :: "worksheet \<Rightarrow> run \<Rightarrow> worksheet" where
  "ledger_after worksheet r =
     (if appended r \<noteq> [] then append_rows worksheet (appended r) else worksheet)"

section \<open>Notions used in the statements\<close>

text \<open>The candidate passes the link test of line 84 and the title test of line 93.\<close>

definition accepted :: "env \<Rightarrow> state \<Rightarrow> article \<Rightarrow> bool" where
  "accepted env s article =
     (truthy (dict_get article ''link'') \<and> dict_get article ''link'' \<notin> existing_links s
      \<and> \<not> is_semantically_duplicate env (existing_titles s) (dict_get article ''title''))"

text \<open>The row lines 94 to 97 build for an article, or the exception of
  \<^verbatim>\<open>urlparse\<close>.\<close>

definition row_for :: "env \<Rightarrow> article \<Rightarrow> exn + row" where
  "row_for env article =
     (case netloc_of env (py_str (dict_get article ''link'')) of
        Inl e \<Rightarrow> Inl e
      | Inr domain \<Rightarrow>
          Inr (make_row env article
                (fst (get_ai_summary env (dict_get article ''title'')
                       (dict_get article ''description''))) domain))"

text \<open>
  Invariants of the loop, relative to the links \<open>L0\<close> and titles \<open>T0\<close> read from the
  ledger: the known sets are the initial ones plus the link (cell 6, index 5) and
  title (cell 2, index 1) of every row collected so far.
\<close>

definition links_inv :: "pyval set \<Rightarrow> state \<Rightarrow> bool" where
  "links_inv L0 s =
     (existing_links s = L0 \<union> (\<lambda>r. r ! 5) ` set (rows_to_add s)
      \<and> distinct (map (\<lambda>r. r ! 5) (rows_to_add s))
      \<and> (\<forall>r \<in> set (rows_to_add s). r ! 5 \<notin> L0 \<and> truthy (r ! 5) \<and> length r = 9))"

definition titles_inv :: "env \<Rightarrow> pyval set \<Rightarrow> state \<Rightarrow> bool" where
  "titles_inv env T0 s =
     (existing_titles s = T0 \<union> (\<lambda>r. r ! 1) ` set (rows_to_add s)
      \<and> (\<forall>r \<in> set (rows_to_add s). \<forall>t \<in> T0.
            token_sort_ratio env (r ! 1) t \<le> SIMILARITY_THRESHOLD)
      \<and> (\<forall>j < length (rows_to_add s). \<forall>i < j.
            token_sort_ratio env (rows_to_add s ! j ! 1) (rows_to_add s ! i ! 1)
              \<le> SIMILARITY_THRESHOLD))"

text \<open>Two states of the loop that agree on the known sets and on every cell of the
  collected rows but the summary (cell 3, index 2).\<close>

definition same_but_summary :: "state \<Rightarrow> state \<Rightarrow> bool" where
  "same_but_summary s s' =
     (existing_links s = existing_links s' \<and> existing_titles s = existing_titles s'
      \<and> map (\<lambda>row. row[2 := PyNone]) (rows_to_add s)
          = map (\<lambda>row. row[2 := PyNone]) (rows_to_add s'))"

section \<open>A sample run\<close>

text \<open>
  A ledger of one row and a response of five articles, newest first: a fresh article
  without description or publication date, a reordered copy of the oldest title under
  a new link, a repeat of the oldest link under another title, an article without
  link, and the oldest, fresh article. The chat backend is configured and fails.
\<close>

definition sample_ledger :: worksheet where
  "sample_ledger =
     [[PyStr '''', PyStr ''old ai'', PyStr ''Summary not available.'', PyNone, PyStr ''wire'',
       PyStr ''https://n.io/0'', PyStr (favicon_url ''n.io''), PyStr ''2024-01-01 08:00:00'',
       PyStr ''Published'']]"

definition article_a :: article where
  "article_a =
     [''link'' \<mapsto> PyStr ''https://n.io/1'', ''title'' \<mapsto> PyStr ''gpt five'',
      ''description'' \<mapsto> PyStr ''text'', ''source_id'' \<mapsto> PyStr ''wire'',
      ''pubDate'' \<mapsto> PyStr ''2024-05-01 10:00:00'']"

definition article_b :: article where
  "article_b = [''link'' \<mapsto> PyStr ''https://m.org/2'', ''title'' \<mapsto> PyStr ''mars rover'']"

definition article_reordered :: article where
  "article_reordered =
     [''link'' \<mapsto> PyStr ''https://n.io/3'', ''title'' \<mapsto> PyStr ''Five, GPT!'']"

definition article_same_link :: article where
  "article_same_link =
     [''link'' \<mapsto> PyStr ''https://n.io/1'', ''title'' \<mapsto> PyStr ''zebra'']"

definition article_no_link :: article where
  "article_no_link = [''title'' \<mapsto> PyStr ''quantum'', ''link'' \<mapsto> PyNone]"

definition sample_env :: env where
  "sample_env =
     \<lparr>sheets_connect = Inr sample_ledger,
      newsdata_fetch =
        Inr [article_b, article_reordered, article_same_link, article_no_link, article_a],
      openai_api_key = PyStr ''sk'',
      chat_completions_create = (\<lambda>prompt. Inl (OtherException ''timeout'')),
      token_sort_ratio = fuzz_token_sort_ratio,
      netloc_of = urlparse_netloc,
      utcnow_isoformat = ''2026-11-04T00:00:00+00:00''\<rparr>"

definition sample_row_a :: row where
  "sample_row_a =
     [PyStr '''', PyStr ''gpt five'', PyStr ''AI summary failed.'', PyNone, PyStr ''wire'',
      PyStr ''https://n.io/1'', PyStr ''https://www.google.com/s2/favicons?domain=n.io&sz=64'',
      PyStr ''2024-05-01 10:00:00'', PyStr ''Published'']"

definition sample_row_b :: row where
  "sample_row_b =
     [PyStr '''', PyStr ''mars rover'', PyStr ''Summary not available.'', PyNone, PyNone,
      PyStr ''https://m.org/2'', PyStr ''https://www.google.com/s2/favicons?domain=m.org&sz=64'',
      PyStr ''2026-11-04T00:00:00+00:00'', PyStr ''Published'']"

definition sample_run :: run where
  "sample_run =
     \<lparr>stdout =
        [Starting, Connected, Fetching, Found 5,
         ErrorCallingOpenAI (OtherException ''timeout''),
         SkippingSimilar (PyStr ''Five, GPT!''), Added 2],
      appended = [sample_row_a, sample_row_b]\<rparr>"

text \<open>Further candidates: a null title, an empty title, and a ledger whose only row
  has an empty title.\<close>

definition article_no_title :: article where
  "article_no_title = [''link'' \<mapsto> PyStr ''https://q.net/7'', ''title'' \<mapsto> PyNone]"



text \<open>A candidate whose publication date is null, and a chat backend that answers.\<close>

definition article_null_date :: article where
  "article_null_date =
     [''link'' \<mapsto> PyStr ''https://q.net/9'', ''title'' \<mapsto> PyStr ''quantum chip'',
      ''pubDate'' \<mapsto> PyNone]"

definition answering_env :: env where
  "answering_env =
     sample_env\<lparr>chat_completions_create :=
                  (\<lambda>prompt. Inr [PyStr (CHR 0x0A # '' A rover lands. ''), PyStr ''other''])\<rparr>"



definition article_bad_link :: article where
  "article_bad_link = [''link'' \<mapsto> PyStr ''http://['', ''title'' \<mapsto> PyNone]"

section \<open>Properties of the scorer model\<close>

lemma lcs_commute: "lcs xs ys = lcs ys xs"
  by (induction xs ys rule: lcs.induct) (auto simp: max.commute, (case_tac ys; simp)+)

lemma lcs_row_Nil: "lcs_row xs [] = [0]"
  by (induction xs) simp_all

lemma lcs_Nil2: "lcs xs [] = 0"
  by (cases xs) simp_all

lemma lcs_row_hd: "hd (lcs_row xs ys) = lcs xs ys \<and> (ys \<noteq> [] \<longrightarrow> tl (lcs_row xs ys) = lcs_row xs (tl ys))"
proof (induction ys arbitrary: xs)
  case Nil
  show ?case by (simp add: lcs_row_Nil lcs_Nil2)
next
  case (Cons y ys)
  have outer: "hd (lcs_row zs ys) = lcs zs ys" for zs
    using Cons.IH by simp
  have "lcs_row xs (y # ys) = lcs xs (y # ys) # lcs_row xs ys" for xs
  proof (induction xs)
    case Nil
    show ?case by simp
  next
    case (Cons x xs)
    have "hd (lcs_next_row x ys (lcs_row xs ys)) = lcs (x # xs) ys"
      using outer[of "x # xs"] by simp
    with Cons show ?case by (simp add: lcs_cell_def outer)
  qed
  then show ?case by simp
qed

lemma lcs_length_eq: "lcs_length xs ys = lcs xs ys"
  by (simp add: lcs_length_def lcs_row_hd)

lemma ratio_commute: "ratio a b = ratio b a"
  by (simp add: ratio_def lcs_length_eq lcs_commute add.commute)

lemma fuzz_token_sort_ratio_commute: "fuzz_token_sort_ratio x y = fuzz_token_sort_ratio y x"
  by (cases x; cases y) (simp_all add: fuzz_token_sort_ratio_def ratio_commute)

lemma fuzz_token_sort_ratio_None: "fuzz_token_sort_ratio PyNone t = 0" "fuzz_token_sort_ratio t PyNone = 0"
  by (cases t; simp add: fuzz_token_sort_ratio_def)+

text \<open>The scenario of the spec (section 8): the same tokens in another order, with one
  more token, score 89.\<close>

lemma reordered_tokens_score:
  "fuzz_token_sort_ratio (PyStr ''OpenAI launches GPT-5'') (PyStr ''GPT-5 launches from OpenAI'') = 89"
  by code_simp

lemma urlparse_netloc_examples:
  "urlparse_netloc ''https://example.com/a?b'' = Inr ''example.com''"
  "urlparse_netloc ''a+b.c://u@h:80/p'' = Inr ''u@h:80''"
  "urlparse_netloc ''example.com/a'' = Inr []"
  "urlparse_netloc ''1http://x/y'' = Inr []"
  "urlparse_netloc ''//host/x'' = Inr ''host''"
  "urlparse_netloc ''http://['' = Inl (ValueError ''Invalid IPv6 URL'')"
  by code_simp+

section \<open>One candidate, and the loop\<close>

lemma make_row_nth:
  "make_row env a sm d ! 1 = dict_get a ''title''"
  "make_row env a sm d ! 5 = dict_get a ''link''"
  "length (make_row env a sm d) = 9"
  by (simp_all add: make_row_def Let_def)

lemma row_for_nth:
  assumes "row_for env a = Inr r"
  shows "r ! 1 = dict_get a ''title''" "r ! 5 = dict_get a ''link''" "length r = 9"
  using assms by (auto simp: row_for_def make_row_def Let_def split: sum.splits)

lemma process_article_not_accepted:
  "\<not> accepted env s a \<Longrightarrow> process_article env s a = Inr s' \<Longrightarrow>
     rows_to_add s' = rows_to_add s \<and> existing_links s' = existing_links s
     \<and> existing_titles s' = existing_titles s"
  by (auto simp: process_article_def accepted_def Let_def split: if_splits)

lemma process_article_accepted:
  "accepted env s a \<Longrightarrow> process_article env s a = Inr s' \<Longrightarrow>
     \<exists>r. row_for env a = Inr r \<and> rows_to_add s' = rows_to_add s @ [r]
       \<and> existing_links s' = insert (dict_get a ''link'') (existing_links s)
       \<and> existing_titles s' = insert (dict_get a ''title'') (existing_titles s)"
  by (auto simp: process_article_def accepted_def row_for_def Let_def
      split: if_splits sum.splits prod.splits)

lemma process_articles_induct_inv:
  assumes step: "\<And>s a s'. P s \<Longrightarrow> process_article env s a = Inr s' \<Longrightarrow> P s'"
    and "P s" and "process_articles env s xs = Inr s'"
  shows "P s'"
  using assms(2,3)
proof (induction xs arbitrary: s)
  case Nil
  then show ?case by simp
next
  case (Cons a xs)
  then show ?case by (auto split: sum.splits intro: step)
qed

lemma links_inv_step:
  assumes "links_inv L0 s" and "process_article env s a = Inr s'"
  shows "links_inv L0 s'"
proof (cases "accepted env s a")
  case False
  from process_article_not_accepted[OF False assms(2)] assms(1)
  show ?thesis by (simp add: links_inv_def)
next
  case True
  from process_article_accepted[OF True assms(2)] obtain r where
    r: "row_for env a = Inr r" "rows_to_add s' = rows_to_add s @ [r]"
      "existing_links s' = insert (dict_get a ''link'') (existing_links s)" by blast
  have l: "r ! 5 = dict_get a ''link''" "length r = 9" using row_for_nth[OF r(1)] by auto
  from True have "truthy (r ! 5)" "r ! 5 \<notin> existing_links s"
    by (auto simp: accepted_def l)
  with assms(1) r l show ?thesis
    by (auto simp: links_inv_def)
qed

lemma titles_inv_step:
  assumes "titles_inv env T0 s" and "process_article env s a = Inr s'"
  shows "titles_inv env T0 s'"
proof (cases "accepted env s a")
  case False
  from process_article_not_accepted[OF False assms(2)] assms(1)
  show ?thesis by (simp add: titles_inv_def)
next
  case True
  from process_article_accepted[OF True assms(2)] obtain r where
    r: "row_for env a = Inr r" "rows_to_add s' = rows_to_add s @ [r]"
      "existing_titles s' = insert (dict_get a ''title'') (existing_titles s)" by blast
  have l: "r ! 1 = dict_get a ''title''" using row_for_nth[OF r(1)] by auto
  from True have nd: "\<forall>t \<in> existing_titles s. token_sort_ratio env (r ! 1) t \<le> SIMILARITY_THRESHOLD"
    unfolding l accepted_def is_semantically_duplicate_def by (auto simp: not_less)
  have T: "existing_titles s = T0 \<union> (\<lambda>r. r ! 1) ` set (rows_to_add s)"
    using assms(1) by (simp add: titles_inv_def)
  have a: "existing_titles s' = T0 \<union> (\<lambda>r. r ! 1) ` set (rows_to_add s')"
    using r T l by auto
  have b: "\<forall>r \<in> set (rows_to_add s'). \<forall>t \<in> T0.
            token_sort_ratio env (r ! 1) t \<le> SIMILARITY_THRESHOLD"
    using assms(1) nd T r(2) by (auto simp: titles_inv_def)
  have c: "token_sort_ratio env (rows_to_add s' ! j ! 1) (rows_to_add s' ! i ! 1)
              \<le> SIMILARITY_THRESHOLD" if "j < length (rows_to_add s')" "i < j" for i j
  proof (cases "j < length (rows_to_add s)")
    case True
    with that assms(1) show ?thesis by (simp add: titles_inv_def r(2) nth_append)
  next
    case False
    with that have j: "j = length (rows_to_add s)" by (simp add: r(2))
    with that have "rows_to_add s ! i ! 1 \<in> existing_titles s" using T by auto
    with nd j that show ?thesis by (simp add: r(2) nth_append)
  qed
  from a b c show ?thesis by (simp add: titles_inv_def)
qed

lemma initial_invs:
  "links_inv (PyStr ` set (col_values ws 6)) (initial_state ws n)"
  "titles_inv env (PyStr ` set (col_values ws 2)) (initial_state ws n)"
  by (simp_all add: links_inv_def titles_inv_def initial_state_def)

lemma main_final_state:
  assumes "main env = Inr r" and "sheets_connect env = Inr ws"
  shows "\<exists>s. appended r = rows_to_add s
           \<and> links_inv (PyStr ` set (col_values ws 6)) s
           \<and> titles_inv env (PyStr ` set (col_values ws 2)) s"
proof (cases "newsdata_fetch env")
  case (Inl e)
  with assms have "appended r = []" by (auto simp: main_def split: if_splits)
  then have "appended r = rows_to_add (initial_state ws 0)" by (simp add: initial_state_def)
  with initial_invs show ?thesis by blast
next
  case (Inr articles)
  with assms obtain s where
    s: "process_articles env (initial_state ws (length articles)) (rev articles) = Inr s"
    and r: "appended r = rows_to_add s"
    by (auto simp: main_def split: sum.splits if_splits)
  have "links_inv (PyStr ` set (col_values ws 6)) s"
    by (rule process_articles_induct_inv[where P = "links_inv (PyStr ` set (col_values ws 6))", OF _ _ s])
      (auto intro: links_inv_step initial_invs)
  moreover have "titles_inv env (PyStr ` set (col_values ws 2)) s"
    by (rule process_articles_induct_inv[where P = "titles_inv env (PyStr ` set (col_values ws 2))", OF _ _ s])
      (auto intro: titles_inv_step initial_invs)
  ultimately show ?thesis using r by blast
qed


lemma main_appended:
  assumes "main env = Inr r" "sheets_connect env = Inr ws" "newsdata_fetch env = Inr articles"
  shows "\<exists>s. process_articles env (initial_state ws (length articles)) (rev articles) = Inr s
            \<and> appended r = rows_to_add s"
  using assms by (auto simp: main_def split: sum.splits if_splits)

section \<open>The loop over a split batch, exceptions, and the chat backend\<close>

lemma process_articles_append:
  "process_articles env s (xs @ ys) =
     (case process_articles env s xs of Inl e \<Rightarrow> Inl e | Inr s' \<Rightarrow> process_articles env s' ys)"
  by (induction xs arbitrary: s) (auto split: sum.splits)

lemma process_article_rows_prefix:
  assumes "process_article env s a = Inr s'"
  shows "prefix (rows_to_add s) (rows_to_add s')"
proof (cases "accepted env s a")
  case True
  from process_article_accepted[OF True assms] show ?thesis by auto
next
  case False
  from process_article_not_accepted[OF False assms] show ?thesis by simp
qed

lemma process_articles_rows_prefix:
  "process_articles env s xs = Inr s' \<Longrightarrow> prefix (rows_to_add s) (rows_to_add s')"
proof (induction xs arbitrary: s)
  case Nil
  then show ?case by simp
next
  case (Cons a xs)
  then obtain s1 where s1: "process_article env s a = Inr s1" "process_articles env s1 xs = Inr s'"
    by (auto split: sum.splits)
  from process_article_rows_prefix[OF s1(1)] Cons.IH[OF s1(2)] show ?case
    by (rule prefix_order.trans)
qed

lemma process_article_Inl:
  "process_article env s a = Inl x \<Longrightarrow> netloc_of env (py_str (dict_get a ''link'')) = Inl x"
  by (auto simp: process_article_def Let_def split: if_splits prod.splits sum.splits)

lemma process_articles_Inl:
  "process_articles env s xs = Inl x \<Longrightarrow>
     \<exists>a \<in> set xs. netloc_of env (py_str (dict_get a ''link'')) = Inl x"
proof (induction xs arbitrary: s)
  case Nil
  then show ?case by simp
next
  case (Cons a xs)
  show ?case
  proof (cases "process_article env s a")
    case (Inl e)
    with Cons.prems have "e = x" by simp
    with process_article_Inl[OF Inl] show ?thesis by simp
  next
    case (Inr s1)
    with Cons.prems have "process_articles env s1 xs = Inl x" by simp
    from Cons.IH[OF this] show ?thesis by auto
  qed
qed

lemma main_Inl:
  assumes "main env = Inl x"
  shows "newsdata_fetch env = Inl x
       \<or> (\<exists>articles a. newsdata_fetch env = Inr articles \<and> a \<in> set articles
             \<and> netloc_of env (py_str (dict_get a ''link'')) = Inl x)"
proof (cases "sheets_connect env")
  case (Inl e)
  with assms show ?thesis by (simp add: main_def)
next
  case ws: (Inr ws)
  show ?thesis
  proof (cases "newsdata_fetch env")
    case (Inl e)
    with assms ws show ?thesis by (auto simp: main_def split: if_splits)
  next
    case (Inr articles)
    with assms ws have
      "process_articles env (initial_state ws (length articles)) (rev articles) = Inl x"
      by (auto simp: main_def split: sum.splits if_splits)
    from process_articles_Inl[OF this] Inr show ?thesis by auto
  qed
qed

lemma main_rows_prefix:
  assumes "sheets_connect env = Inr ws" and "newsdata_fetch env = Inr articles"
    and "rev articles = pre @ a # post"
    and "process_articles env (initial_state ws (length articles)) pre = Inr s"
    and "process_article env s a = Inr s1"
    and "main env = Inr r"
  shows "prefix (rows_to_add s1) (appended r)"
proof -
  from main_appended[OF assms(6,1,2)] obtain sf where
    sf: "process_articles env (initial_state ws (length articles)) (rev articles) = Inr sf"
      "appended r = rows_to_add sf" by blast
  from sf(1) assms(3,4,5) have "process_articles env s1 post = Inr sf"
    by (simp add: process_articles_append)
  from process_articles_rows_prefix[OF this] sf(2) show ?thesis by simp
qed

lemma summary_failed:
  assumes "truthy description" and "truthy (openai_api_key env)"
    and "chat_completions_create env (summary_prompt title description) = Inl e"
  shows "get_ai_summary env title description = (''AI summary failed.'', [ErrorCallingOpenAI e])"
  using assms by (simp add: get_ai_summary_def)

lemma process_article_same_but_summary:
  assumes "same_but_summary s s'"
  shows "(case process_article env s a of
            Inl x \<Rightarrow> process_article (env\<lparr>chat_completions_create := chat, openai_api_key := key\<rparr>) s' a = Inl x
          | Inr t \<Rightarrow> (\<exists>t'. process_article (env\<lparr>chat_completions_create := chat, openai_api_key := key\<rparr>) s' a = Inr t'
                        \<and> same_but_summary t t'))"
  using assms
  by (auto simp: process_article_def Let_def same_but_summary_def make_row_def
      is_semantically_duplicate_def split: prod.splits sum.splits)

lemma process_articles_same_but_summary:
  assumes "same_but_summary s s'"
  shows "(case process_articles env s xs of
            Inl x \<Rightarrow> process_articles (env\<lparr>chat_completions_create := chat, openai_api_key := key\<rparr>) s' xs = Inl x
          | Inr t \<Rightarrow> (\<exists>t'. process_articles (env\<lparr>chat_completions_create := chat, openai_api_key := key\<rparr>) s' xs = Inr t'
                        \<and> same_but_summary t t'))"
  using assms
proof (induction xs arbitrary: s s')
  case Nil
  then show ?case by simp
next
  case (Cons a xs)
  show ?case
  proof (cases "process_article env s a")
    case (Inl x)
    with process_article_same_but_summary[OF Cons.prems, where env=env and a=a and chat=chat and key=key] show ?thesis by simp
  next
    case (Inr t)
    with process_article_same_but_summary[OF Cons.prems, where env=env and a=a and chat=chat and key=key] obtain t' where
      t': "process_article (env\<lparr>chat_completions_create := chat, openai_api_key := key\<rparr>) s' a = Inr t'"
        "same_but_summary t t'" by auto
    from Cons.IH[OF t'(2)] Inr t'(1) show ?thesis by (auto split: sum.splits)
  qed
qed

lemma main_same_but_summary:
  "(case main env of
      Inl x \<Rightarrow> main (env\<lparr>chat_completions_create := chat, openai_api_key := key\<rparr>) = Inl x
    | Inr r \<Rightarrow> (\<exists>r'. main (env\<lparr>chat_completions_create := chat, openai_api_key := key\<rparr>) = Inr r'
                  \<and> map (\<lambda>row. row[2 := PyNone]) (appended r')
                      = map (\<lambda>row. row[2 := PyNone]) (appended r)))"
proof (cases "sheets_connect env")
  case (Inl e)
  then show ?thesis by (simp add: main_def)
next
  case ws: (Inr ws)
  show ?thesis
  proof (cases "newsdata_fetch env")
    case (Inl e)
    with ws show ?thesis by (simp add: main_def)
  next
    case (Inr articles)
    let ?s0 = "initial_state ws (length articles)"
    have "same_but_summary ?s0 ?s0" by (simp add: same_but_summary_def)
    from process_articles_same_but_summary[OF this, where env=env and xs="rev articles" and chat=chat and key=key]
    show ?thesis using ws Inr
      by (auto simp: main_def same_but_summary_def split: sum.splits)
  qed
qed


lemma cell_text_in_col_values: "r \<in> set ws \<Longrightarrow> cell_text n r \<in> set (col_values ws n)"
  by (simp add: col_values_def)

section \<open>The sample run, evaluated\<close>

lemma sample_main: "main sample_env = Inr sample_run"
  by code_simp

section \<open>Order of the appended rows\<close>



section \<open>Links of the appended rows\<close>

text \<open>
  Claim C2. No two rows appended by a run have the same link (cell 6, index 5), every
  appended link is a non-empty string that is not in the link column of the ledger
  as read at the start of the run, and an accepted link is in the known links at once.
\<close>

theorem appended_links_fresh_and_distinct:
  assumes "sheets_connect env = Inr worksheet" and "main env = Inr r"
  shows "distinct (map (\<lambda>row. row ! 5) (appended r))
       \<and> (\<forall>row \<in> set (appended r). \<exists>link. row ! 5 = PyStr link \<and> link \<noteq> []
             \<and> link \<notin> set (col_values worksheet 6))
       \<and> (\<forall>s article s'. accepted env s article \<and> process_article env s article = Inr s'
             \<longrightarrow> dict_get article ''link'' \<in> existing_links s')"
proof -
  from main_final_state[OF assms(2,1)] obtain s where
    s: "appended r = rows_to_add s" "links_inv (PyStr ` set (col_values worksheet 6)) s" by blast
  have 1: "distinct (map (\<lambda>row. row ! 5) (appended r))"
    using s by (simp add: links_inv_def)
  have 2: "\<exists>link. row ! 5 = PyStr link \<and> link \<noteq> [] \<and> link \<notin> set (col_values worksheet 6)"
    if "row \<in> set (appended r)" for row
  proof -
    from that s have "row ! 5 \<notin> PyStr ` set (col_values worksheet 6)" "truthy (row ! 5)"
      by (auto simp: links_inv_def)
    then show ?thesis by (cases "row ! 5") (auto simp: truthy_def)
  qed
  have 3: "dict_get article ''link'' \<in> existing_links s'"
    if "accepted env s article" "process_article env s article = Inr s'" for s article s'
    using process_article_accepted[OF that] by auto
  from 1 2 3 show ?thesis by blast
qed

theorem appended_links_fresh_and_distinct_witness:
  "sheets_connect sample_env = Inr sample_ledger \<and> main sample_env = Inr sample_run
   \<and> col_values sample_ledger 6 = [''https://n.io/0'']
   \<and> map (\<lambda>row. row ! 5) (appended sample_run) = [PyStr ''https://n.io/1'', PyStr ''https://m.org/2'']
   \<and> distinct (map (\<lambda>row. row ! 5) (appended sample_run))"
proof -
  have c: "sheets_connect sample_env = Inr sample_ledger" by (simp add: sample_env_def)
  have m: "main sample_env = Inr sample_run" by (rule sample_main)
  have v: "col_values sample_ledger 6 = [''https://n.io/0'']" by code_simp
  have l: "map (\<lambda>row. row ! 5) (appended sample_run) = [PyStr ''https://n.io/1'', PyStr ''https://m.org/2'']"
    by code_simp
  from appended_links_fresh_and_distinct[OF c m] c m v l show ?thesis by blast
qed

section \<open>Near-duplicate titles\<close>

lemma process_article_rejects_iff:
  assumes "truthy (dict_get article ''link'')" and "dict_get article ''link'' \<notin> existing_links s"
  shows "(\<exists>s'. process_article env s article = Inr s' \<and> rows_to_add s' = rows_to_add s
             \<and> existing_links s' = existing_links s \<and> existing_titles s' = existing_titles s)
         \<longleftrightarrow> is_semantically_duplicate env (existing_titles s) (dict_get article ''title'')"
  using assms
  by (auto simp: process_article_def Let_def split: sum.splits prod.splits)

text \<open>
  Claim C1. A candidate whose link is present and not yet known is rejected (no row,
  known sets unchanged) exactly when some title in the known titles scores above 50
  against its title. Hence, for a symmetric scorer, any two rows appended by a run
  have titles (cell 2, index 1) scoring at most 50 against each other, and every
  appended title scores at most 50 against every title read from the ledger.
\<close>

theorem near_duplicates_rejected:
  assumes sym: "\<And>x y. token_sort_ratio env x y = token_sort_ratio env y x"
    and "sheets_connect env = Inr worksheet" and "main env = Inr r"
  shows "(\<forall>s article.
            truthy (dict_get article ''link'') \<and> dict_get article ''link'' \<notin> existing_links s \<longrightarrow>
              ((\<exists>s'. process_article env s article = Inr s' \<and> rows_to_add s' = rows_to_add s
                   \<and> existing_links s' = existing_links s \<and> existing_titles s' = existing_titles s)
               \<longleftrightarrow> (\<exists>t \<in> existing_titles s.
                      token_sort_ratio env (dict_get article ''title'') t > 50)))
       \<and> (\<forall>i j. i < length (appended r) \<and> j < length (appended r) \<and> i \<noteq> j \<longrightarrow>
              token_sort_ratio env (appended r ! i ! 1) (appended r ! j ! 1) \<le> 50)
       \<and> (\<forall>row \<in> set (appended r). \<forall>t \<in> set (col_values worksheet 2).
              token_sort_ratio env (row ! 1) (PyStr t) \<le> 50)"
proof -
  from main_final_state[OF assms(3,2)] obtain s where
    s: "appended r = rows_to_add s" "titles_inv env (PyStr ` set (col_values worksheet 2)) s"
    by blast
  have 1: "(\<exists>s'. process_article env s article = Inr s' \<and> rows_to_add s' = rows_to_add s
                   \<and> existing_links s' = existing_links s \<and> existing_titles s' = existing_titles s)
               \<longleftrightarrow> (\<exists>t \<in> existing_titles s.
                      token_sort_ratio env (dict_get article ''title'') t > 50)"
    if "truthy (dict_get article ''link'')" "dict_get article ''link'' \<notin> existing_links s"
    for s article
    using process_article_rejects_iff[OF that, of env]
    by (simp add: is_semantically_duplicate_def SIMILARITY_THRESHOLD_def)
  have lt: "token_sort_ratio env (appended r ! j ! 1) (appended r ! i ! 1) \<le> 50"
    if "j < length (appended r)" "i < j" for i j
    using s that by (simp add: titles_inv_def SIMILARITY_THRESHOLD_def)
  have 2: "token_sort_ratio env (appended r ! i ! 1) (appended r ! j ! 1) \<le> 50"
    if "i < length (appended r)" "j < length (appended r)" "i \<noteq> j" for i j
  proof (cases "i < j")
    case True
    with lt[of j i] that sym show ?thesis by simp
  next
    case False
    with that have "j < i" by simp
    with lt[of i j] that show ?thesis by simp
  qed
  have 3: "token_sort_ratio env (row ! 1) (PyStr t) \<le> 50"
    if "row \<in> set (appended r)" "t \<in> set (col_values worksheet 2)" for row t
    using s that by (auto simp: titles_inv_def SIMILARITY_THRESHOLD_def)
  from 1 2 3 show ?thesis by blast
qed

theorem near_duplicates_rejected_witness:
  "(\<forall>x y. token_sort_ratio sample_env x y = token_sort_ratio sample_env y x)
   \<and> sheets_connect sample_env = Inr sample_ledger
   \<and> main sample_env = Inr sample_run
   \<and> appended sample_run ! 0 ! 1 = PyStr ''gpt five''
   \<and> appended sample_run ! 1 ! 1 = PyStr ''mars rover''
   \<and> token_sort_ratio sample_env (PyStr ''gpt five'') (PyStr ''mars rover'') \<le> 50
   \<and> token_sort_ratio sample_env (PyStr ''Five, GPT!'') (PyStr ''gpt five'') = 100"
proof -
  have y: "token_sort_ratio sample_env x y = token_sort_ratio sample_env y x" for x y
    by (simp add: sample_env_def fuzz_token_sort_ratio_commute)
  have c: "sheets_connect sample_env = Inr sample_ledger" by (simp add: sample_env_def)
  have m: "main sample_env = Inr sample_run" by (rule sample_main)
  have a: "appended sample_run ! 0 ! 1 = PyStr ''gpt five''"
    "appended sample_run ! 1 ! 1 = PyStr ''mars rover''"
    by (simp_all add: sample_run_def sample_row_a_def sample_row_b_def)
  have l: "length (appended sample_run) = 2" by (simp add: sample_run_def)
  have d: "token_sort_ratio sample_env (PyStr ''Five, GPT!'') (PyStr ''gpt five'') = 100"
    by code_simp
  from near_duplicates_rejected[OF y c m] have
    "token_sort_ratio sample_env (appended sample_run ! 0 ! 1) (appended sample_run ! 1 ! 1) \<le> 50"
    using l by simp
  with y c m a d show ?thesis by simp
qed

section \<open>Candidates without a link\<close>

text \<open>
  Claim C5. A candidate whose link is absent, null or the empty string leaves the
  state of the loop as it is, whatever its title and whatever the collaborators
  answer: no row is built, the known sets are unchanged, nothing is printed.
\<close>

theorem missing_link_rejected:
  assumes "article ''link'' = None \<or> article ''link'' = Some PyNone
             \<or> article ''link'' = Some (PyStr '''')"
  shows "process_article env s article = Inr s"
  using assms by (auto simp: process_article_def dict_get_def truthy_def)

theorem missing_link_rejected_witness:
  "article_no_link ''link'' = Some PyNone
   \<and> process_article sample_env (initial_state sample_ledger 5) article_no_link
       = Inr (initial_state sample_ledger 5)"
proof -
  have a: "article_no_link ''link'' = Some PyNone" by (simp add: article_no_link_def)
  from missing_link_rejected[of article_no_link sample_env "initial_state sample_ledger 5"] a
  show ?thesis by simp
qed

section \<open>Empty titles\<close>





section \<open>Fatal errors\<close>

text \<open>
  Claim C9. When the connection to the ledger fails, or the fetch fails with a
  \<^verbatim>\<open>RequestException\<close>, the run prints the error and returns at once without
  calling \<^verbatim>\<open>append_rows\<close>: the ledger is as it was.
\<close>

theorem fatal_errors_write_nothing:
  "(sheets_connect env = Inl e \<longrightarrow>
      main env = Inr \<lparr>stdout = [Starting, ErrorConnecting e], appended = []\<rparr>)
   \<and> (sheets_connect env = Inr worksheet \<and> newsdata_fetch env = Inl (RequestException msg) \<longrightarrow>
        main env = Inr \<lparr>stdout = [Starting, Connected, Fetching,
                                  ErrorFetching (RequestException msg)],
                       appended = []\<rparr>)
   \<and> (\<forall>r. main env = Inr r \<and> appended r = [] \<longrightarrow> ledger_after worksheet r = worksheet)"
  by (simp add: main_def is_RequestException_def ledger_after_def)

theorem fatal_errors_write_nothing_witness:
  "main (sample_env\<lparr>sheets_connect := Inl (OtherException ''invalid credentials'')\<rparr>)
     = Inr \<lparr>stdout = [Starting, ErrorConnecting (OtherException ''invalid credentials'')],
            appended = []\<rparr>
   \<and> main (sample_env\<lparr>newsdata_fetch := Inl (RequestException ''503'')\<rparr>)
     = Inr \<lparr>stdout = [Starting, Connected, Fetching, ErrorFetching (RequestException ''503'')],
            appended = []\<rparr>
   \<and> ledger_after sample_ledger
        \<lparr>stdout = [Starting, Connected, Fetching, ErrorFetching (RequestException ''503'')],
         appended = []\<rparr> = sample_ledger"
proof -
  have 1: "sheets_connect (sample_env\<lparr>sheets_connect := Inl (OtherException ''invalid credentials'')\<rparr>)
             = Inl (OtherException ''invalid credentials'')" by simp
  have 2: "sheets_connect (sample_env\<lparr>newsdata_fetch := Inl (RequestException ''503'')\<rparr>) = Inr sample_ledger"
    "newsdata_fetch (sample_env\<lparr>newsdata_fetch := Inl (RequestException ''503'')\<rparr>)
       = Inl (RequestException ''503'')"
    by (simp_all add: sample_env_def)
  from fatal_errors_write_nothing[of "sample_env\<lparr>sheets_connect := Inl (OtherException ''invalid credentials'')\<rparr>"
      "OtherException ''invalid credentials''"] 1
  have a: "main (sample_env\<lparr>sheets_connect := Inl (OtherException ''invalid credentials'')\<rparr>)
     = Inr \<lparr>stdout = [Starting, ErrorConnecting (OtherException ''invalid credentials'')],
            appended = []\<rparr>" by blast
  from fatal_errors_write_nothing[of "sample_env\<lparr>newsdata_fetch := Inl (RequestException ''503'')\<rparr>"
      _ sample_ledger "''503''"] 2
  have b: "main (sample_env\<lparr>newsdata_fetch := Inl (RequestException ''503'')\<rparr>)
     = Inr \<lparr>stdout = [Starting, Connected, Fetching, ErrorFetching (RequestException ''503'')],
            appended = []\<rparr>" by blast
  have c: "ledger_after sample_ledger
        \<lparr>stdout = [Starting, Connected, Fetching, ErrorFetching (RequestException ''503'')],
         appended = []\<rparr> = sample_ledger" by (simp add: ledger_after_def)
  from a b c show ?thesis by blast
qed

section \<open>Running twice\<close>

lemma accepted_antimono:
  "existing_links s \<subseteq> existing_links s' \<Longrightarrow> existing_titles s \<subseteq> existing_titles s' \<Longrightarrow>
     accepted env s' a \<Longrightarrow> accepted env s a"
  by (auto simp: accepted_def is_semantically_duplicate_def)

lemma process_article_grows:
  assumes "process_article env s a = Inr s'"
  shows "existing_links s \<subseteq> existing_links s' \<and> existing_titles s \<subseteq> existing_titles s'"
proof (cases "accepted env s a")
  case True
  from process_article_accepted[OF True assms] show ?thesis by auto
next
  case False
  from process_article_not_accepted[OF False assms] show ?thesis by simp
qed

lemma process_articles_grows:
  "process_articles env s xs = Inr s' \<Longrightarrow>
     existing_links s \<subseteq> existing_links s' \<and> existing_titles s \<subseteq> existing_titles s'"
proof (induction xs arbitrary: s)
  case Nil
  then show ?case by simp
next
  case (Cons a xs)
  then obtain s1 where s1: "process_article env s a = Inr s1" "process_articles env s1 xs = Inr s'"
    by (auto split: sum.splits)
  from process_article_grows[OF s1(1)] Cons.IH[OF s1(2)] show ?case by blast
qed

lemma process_article_then_known:
  assumes "process_article env s a = Inr s'"
  shows "\<not> accepted env s' a"
proof (cases "accepted env s a")
  case True
  from process_article_accepted[OF True assms] show ?thesis by (auto simp: accepted_def)
next
  case False
  from process_article_not_accepted[OF False assms] False show ?thesis
    by (simp add: accepted_def)
qed

lemma process_articles_then_known:
  "process_articles env s xs = Inr s' \<Longrightarrow> a \<in> set xs \<Longrightarrow> \<not> accepted env s' a"
proof (induction xs arbitrary: s)
  case Nil
  then show ?case by simp
next
  case (Cons b xs)
  then obtain s1 where s1: "process_article env s b = Inr s1" "process_articles env s1 xs = Inr s'"
    by (auto split: sum.splits)
  show ?case
  proof (cases "a = b")
    case True
    from process_article_then_known[OF s1(1)] process_articles_grows[OF s1(2)] True
    show ?thesis using accepted_antimono by blast
  next
    case False
    with Cons.prems have "a \<in> set xs" by simp
    from Cons.IH[OF s1(2) this] show ?thesis .
  qed
qed

lemma process_articles_all_rejected:
  "\<forall>a \<in> set xs. \<not> accepted env s a \<Longrightarrow>
     \<exists>s'. process_articles env s xs = Inr s' \<and> rows_to_add s' = rows_to_add s"
proof (induction xs arbitrary: s)
  case Nil
  then show ?case by simp
next
  case (Cons b xs)
  then have nb: "\<not> accepted env s b" by simp
  then have "\<exists>s1. process_article env s b = Inr s1"
    by (auto simp: process_article_def accepted_def Let_def)
  then obtain s1 where s1: "process_article env s b = Inr s1" by blast
  from process_article_not_accepted[OF nb s1] have same:
    "rows_to_add s1 = rows_to_add s" "existing_links s1 = existing_links s"
    "existing_titles s1 = existing_titles s" by simp_all
  with Cons.prems have "\<forall>a \<in> set xs. \<not> accepted env s1 a" by (simp add: accepted_def)
  from Cons.IH[OF this] s1 same show ?case by simp
qed

text \<open>
  Claim C4. Let a run return on a ledger, and let the next run meet the same response
  and the ledger with the rows of the first run appended. Then the second run returns
  and appends nothing; every link appended by the first run is in the link column the
  second run reads. The scorer is taken never to score a comparison with
  \<^verbatim>\<open>None\<close> above the threshold (a null title is read back as an empty cell).
\<close>

theorem second_run_appends_nothing:
  assumes "sheets_connect env = Inr worksheet" and "main env = Inr r1"
    and none: "\<And>t. token_sort_ratio env t PyNone \<le> 50"
  shows "(\<exists>r2. main (env\<lparr>sheets_connect := Inr (ledger_after worksheet r1)\<rparr>) = Inr r2
            \<and> appended r2 = [])
       \<and> (\<forall>row \<in> set (appended r1).
            row ! 5 \<in> PyStr ` set (col_values (ledger_after worksheet r1) 6))"
proof -
  let ?ws2 = "ledger_after worksheet r1"
  let ?env2 = "env\<lparr>sheets_connect := Inr ?ws2\<rparr>"
  have ws2: "?ws2 = worksheet @ appended r1"
    by (simp add: ledger_after_def append_rows_def)
  from main_final_state[OF assms(2,1)] obtain sf where
    sf: "appended r1 = rows_to_add sf" "links_inv (PyStr ` set (col_values worksheet 6)) sf"
    by blast
  have links: "row ! 5 \<in> PyStr ` set (col_values ?ws2 6)" if "row \<in> set (appended r1)" for row
  proof -
    from that sf have "truthy (row ! 5)" "length row = 9" by (auto simp: links_inv_def)
    then obtain l where l: "row ! 5 = PyStr l" by (cases "row ! 5") (auto simp: truthy_def)
    with \<open>length row = 9\<close> have "cell_text 6 row = l" by (simp add: cell_text_def)
    moreover have "cell_text 6 row \<in> set (col_values ?ws2 6)"
      using that by (intro cell_text_in_col_values) (simp add: ws2)
    ultimately show ?thesis using l by simp
  qed
  have run2: "\<exists>r2. main ?env2 = Inr r2 \<and> appended r2 = []"
  proof (cases "newsdata_fetch env")
    case (Inl e)
    with assms(1,2) have "is_RequestException e" by (auto simp: main_def split: if_splits)
    with Inl show ?thesis by (simp add: main_def)
  next
    case (Inr articles)
    let ?n = "length articles"
    from main_appended[OF assms(2,1) Inr] obtain s1 where
      s1: "process_articles env (initial_state worksheet ?n) (rev articles) = Inr s1"
        "appended r1 = rows_to_add s1" by blast
    have li: "links_inv (PyStr ` set (col_values worksheet 6)) s1"
      by (rule process_articles_induct_inv[where P = "links_inv (PyStr ` set (col_values worksheet 6))", OF _ _ s1(1)])
        (auto intro: links_inv_step initial_invs)
    have ti: "titles_inv env (PyStr ` set (col_values worksheet 2)) s1"
      by (rule process_articles_induct_inv[where P = "titles_inv env (PyStr ` set (col_values worksheet 2))", OF _ _ s1(1)])
        (auto intro: titles_inv_step initial_invs)
    have L: "existing_links s1 \<subseteq> PyStr ` set (col_values ?ws2 6)"
    proof
      fix x assume "x \<in> existing_links s1"
      with li have "x \<in> PyStr ` set (col_values worksheet 6) \<or> (\<exists>row \<in> set (appended r1). x = row ! 5)"
        by (auto simp: links_inv_def s1(2))
      then show "x \<in> PyStr ` set (col_values ?ws2 6)"
        using links by (auto simp: ws2 col_values_def)
    qed
    have T: "\<exists>t' \<in> PyStr ` set (col_values ?ws2 2). token_sort_ratio env c t' > 50"
      if "t \<in> existing_titles s1" "token_sort_ratio env c t > 50" for c t
    proof -
      from that(1) ti consider "t \<in> PyStr ` set (col_values worksheet 2)"
        | row where "row \<in> set (appended r1)" "t = row ! 1"
        by (auto simp: titles_inv_def s1(2))
      then show ?thesis
      proof cases
        case 1
        then have "t \<in> PyStr ` set (col_values ?ws2 2)" by (auto simp: ws2 col_values_def)
        with that(2) show ?thesis by blast
      next
        case 2
        from 2(1) li have len: "length row = 9" by (auto simp: links_inv_def s1(2))
        from that(2) none[of c] have "t \<noteq> PyNone" by auto
        then obtain x where x: "t = PyStr x" by (cases t) auto
        with 2(2) have "row ! 1 = PyStr x" by simp
        with len have "cell_text 2 row = x" by (simp add: cell_text_def)
        moreover have "cell_text 2 row \<in> set (col_values ?ws2 2)"
          using 2(1) by (intro cell_text_in_col_values) (simp add: ws2)
        ultimately have "t \<in> PyStr ` set (col_values ?ws2 2)" using x by simp
        with that(2) show ?thesis by blast
      qed
    qed
    have blocked: "\<not> accepted ?env2 (initial_state ?ws2 ?n) a" if "a \<in> set (rev articles)" for a
    proof
      assume acc: "accepted ?env2 (initial_state ?ws2 ?n) a"
      have "accepted env s1 a"
        unfolding accepted_def
      proof (intro conjI)
        from acc show "truthy (dict_get a ''link'')" by (simp add: accepted_def)
        from acc L show "dict_get a ''link'' \<notin> existing_links s1"
          by (auto simp: accepted_def initial_state_def)
        show "\<not> is_semantically_duplicate env (existing_titles s1) (dict_get a ''title'')"
        proof
          assume "is_semantically_duplicate env (existing_titles s1) (dict_get a ''title'')"
          then obtain t where "t \<in> existing_titles s1"
            "token_sort_ratio env (dict_get a ''title'') t > 50"
            by (auto simp: is_semantically_duplicate_def SIMILARITY_THRESHOLD_def)
          from T[OF this] acc show False
            by (auto simp: accepted_def initial_state_def is_semantically_duplicate_def
                SIMILARITY_THRESHOLD_def)
        qed
      qed
      with process_articles_then_known[OF s1(1) that] show False by simp
    qed
    then have "\<forall>a \<in> set (rev articles). \<not> accepted ?env2 (initial_state ?ws2 ?n) a" by blast
    from process_articles_all_rejected[OF this] obtain s2 where
      "process_articles ?env2 (initial_state ?ws2 ?n) (rev articles) = Inr s2"
      "rows_to_add s2 = []" by (auto simp: initial_state_def)
    with Inr show ?thesis by (simp add: main_def)
  qed
  from run2 links show ?thesis by blast
qed

theorem second_run_appends_nothing_witness:
  "sheets_connect sample_env = Inr sample_ledger
   \<and> main sample_env = Inr sample_run
   \<and> (\<forall>t. token_sort_ratio sample_env t PyNone \<le> 50)
   \<and> ledger_after sample_ledger sample_run = sample_ledger @ [sample_row_a, sample_row_b]
   \<and> main (sample_env\<lparr>sheets_connect := Inr (ledger_after sample_ledger sample_run)\<rparr>)
       = Inr \<lparr>stdout = [Starting, Connected, Fetching, Found 5,
                        SkippingSimilar (PyStr ''Five, GPT!''), NoNewArticles],
              appended = []\<rparr>"
proof -
  have c: "sheets_connect sample_env = Inr sample_ledger" by (simp add: sample_env_def)
  have n: "token_sort_ratio sample_env t PyNone \<le> 50" for t
    by (simp add: sample_env_def fuzz_token_sort_ratio_None)
  have l: "ledger_after sample_ledger sample_run = sample_ledger @ [sample_row_a, sample_row_b]"
    by (simp add: ledger_after_def append_rows_def sample_run_def)
  have m2: "main (sample_env\<lparr>sheets_connect := Inr (ledger_after sample_ledger sample_run)\<rparr>)
       = Inr \<lparr>stdout = [Starting, Connected, Fetching, Found 5,
                        SkippingSimilar (PyStr ''Five, GPT!''), NoNewArticles],
              appended = []\<rparr>" by code_simp
  from second_run_appends_nothing[OF c sample_main n] c sample_main n l m2 show ?thesis by blast
qed

section \<open>The summarizer\<close>

lemma strip_suffix:
  "dropWhile is_space s = strip s @ rev (takeWhile is_space (rev (dropWhile is_space s)))"
  unfolding strip_def by (metis rev_append rev_rev_ident takeWhile_dropWhile_id)

lemma strip_decomp:
  "\<exists>pre suf. s = pre @ strip s @ suf \<and> list_all is_space pre \<and> list_all is_space suf"
proof -
  let ?m = "dropWhile is_space s"
  have "s = takeWhile is_space s @ ?m" by simp
  with strip_suffix[of s]
  have "s = takeWhile is_space s @ strip s @ rev (takeWhile is_space (rev ?m))"
    by simp
  moreover have "list_all is_space (takeWhile is_space s)"
    by (auto simp: list_all_iff dest: set_takeWhileD)
  moreover have "list_all is_space (rev (takeWhile is_space (rev ?m)))"
    by (auto simp: list_all_iff dest: set_takeWhileD)
  ultimately show ?thesis by blast
qed

lemma strip_ends:
  "strip s = [] \<or> (\<not> is_space (hd (strip s)) \<and> \<not> is_space (last (strip s)))"
proof (cases "strip s = []")
  case True
  then show ?thesis by simp
next
  case False
  let ?m = "dropWhile is_space s"
  from False strip_suffix[of s] have "hd ?m = hd (strip s)" "?m \<noteq> []"
    by (metis hd_append2, metis append_is_Nil_conv)
  then have h: "\<not> is_space (hd (strip s))" using hd_dropWhile[of is_space s] by simp
  from False have "dropWhile is_space (rev ?m) \<noteq> []" by (simp add: strip_def)
  from hd_dropWhile[OF this] have "\<not> is_space (last (strip s))"
    using False by (simp add: strip_def last_rev)
  with h show ?thesis by simp
qed

text \<open>
  Claim C7. \<^verbatim>\<open>get_ai_summary\<close> always returns a string and never an exception:
  ``Summary not available.'' when the description is empty or missing or no API key
  is set; ``AI summary failed.'' when the backend call raises, and also when the
  response has no choice or a null content; the content of the first choice, stripped
  of surrounding whitespace, otherwise. In a run, an accepted article whose backend
  call raises has its row, with the failure sentinel in the summary cell (cell 3,
  index 2), among the rows appended, right after the rows collected before its turn.
  An exception that leaves \<^verbatim>\<open>main\<close> comes from the fetch or from
  \<^verbatim>\<open>urlparse\<close>, never from the summarizer; and whatever the backend and the API
  key are, the run ends the same way and appends the same rows up to the summary cell.
\<close>

theorem summary_never_raises:
  "(\<not> truthy description \<or> \<not> truthy (openai_api_key env) \<longrightarrow>
      get_ai_summary env title description = (''Summary not available.'', []))
   \<and> (truthy description \<and> truthy (openai_api_key env) \<longrightarrow>
        (\<forall>e. chat_completions_create env (summary_prompt title description) = Inl e \<longrightarrow>
           get_ai_summary env title description = (''AI summary failed.'', [ErrorCallingOpenAI e]))
        \<and> (chat_completions_create env (summary_prompt title description) = Inr [] \<longrightarrow>
             fst (get_ai_summary env title description) = ''AI summary failed.'')
        \<and> (\<forall>rest. chat_completions_create env (summary_prompt title description)
               = Inr (PyNone # rest) \<longrightarrow>
             fst (get_ai_summary env title description) = ''AI summary failed.'')
        \<and> (\<forall>content rest.
             chat_completions_create env (summary_prompt title description)
               = Inr (PyStr content # rest) \<longrightarrow>
             get_ai_summary env title description = (strip content, [])))
   \<and> (\<forall>content. (\<exists>pre suf. content = pre @ strip content @ suf
                     \<and> list_all is_space pre \<and> list_all is_space suf)
        \<and> (strip content = []
           \<or> (\<not> is_space (hd (strip content)) \<and> \<not> is_space (last (strip content)))))
   \<and> (\<forall>worksheet articles pre article post s e domain r.
        sheets_connect env = Inr worksheet \<and> newsdata_fetch env = Inr articles
        \<and> rev articles = pre @ article # post
        \<and> process_articles env (initial_state worksheet (length articles)) pre = Inr s
        \<and> accepted env s article
        \<and> truthy (dict_get article ''description'') \<and> truthy (openai_api_key env)
        \<and> chat_completions_create env
            (summary_prompt (dict_get article ''title'') (dict_get article ''description'')) = Inl e
        \<and> netloc_of env (py_str (dict_get article ''link'')) = Inr domain
        \<and> main env = Inr r \<longrightarrow>
        prefix (rows_to_add s @ [make_row env article ''AI summary failed.'' domain]) (appended r)
        \<and> make_row env article ''AI summary failed.'' domain ! 2 = PyStr ''AI summary failed.'')
   \<and> (\<forall>x. main env = Inl x \<longrightarrow>
          newsdata_fetch env = Inl x
          \<or> (\<exists>articles a. newsdata_fetch env = Inr articles \<and> a \<in> set articles
                \<and> netloc_of env (py_str (dict_get a ''link'')) = Inl x))
   \<and> (\<forall>chat key.
        (\<forall>x. main env = Inl x \<longrightarrow>
           main (env\<lparr>chat_completions_create := chat, openai_api_key := key\<rparr>) = Inl x)
        \<and> (\<forall>r. main env = Inr r \<longrightarrow>
             (\<exists>r'. main (env\<lparr>chat_completions_create := chat, openai_api_key := key\<rparr>) = Inr r'
                \<and> map (\<lambda>row. row[2 := PyNone]) (appended r')
                    = map (\<lambda>row. row[2 := PyNone]) (appended r))))"
proof -
  have 1: "\<not> truthy description \<or> \<not> truthy (openai_api_key env) \<longrightarrow>
      get_ai_summary env title description = (''Summary not available.'', [])"
    by (auto simp: get_ai_summary_def)
  have 2: "truthy description \<and> truthy (openai_api_key env) \<longrightarrow>
        (\<forall>e. chat_completions_create env (summary_prompt title description) = Inl e \<longrightarrow>
           get_ai_summary env title description = (''AI summary failed.'', [ErrorCallingOpenAI e]))
        \<and> (chat_completions_create env (summary_prompt title description) = Inr [] \<longrightarrow>
             fst (get_ai_summary env title description) = ''AI summary failed.'')
        \<and> (\<forall>rest. chat_completions_create env (summary_prompt title description)
               = Inr (PyNone # rest) \<longrightarrow>
             fst (get_ai_summary env title description) = ''AI summary failed.'')
        \<and> (\<forall>content rest.
             chat_completions_create env (summary_prompt title description)
               = Inr (PyStr content # rest) \<longrightarrow>
             get_ai_summary env title description = (strip content, []))"
    by (auto simp: get_ai_summary_def)
  have 3: "(\<exists>pre suf. content = pre @ strip content @ suf
                     \<and> list_all is_space pre \<and> list_all is_space suf)
        \<and> (strip content = []
           \<or> (\<not> is_space (hd (strip content)) \<and> \<not> is_space (last (strip content))))"
    for content
    using strip_decomp[of content] strip_ends[of content] by blast
  have 4: "prefix (rows_to_add s @ [make_row env article ''AI summary failed.'' domain]) (appended r)
        \<and> make_row env article ''AI summary failed.'' domain ! 2 = PyStr ''AI summary failed.''"
    if "sheets_connect env = Inr worksheet" "newsdata_fetch env = Inr articles"
      "rev articles = pre @ article # post"
      "process_articles env (initial_state worksheet (length articles)) pre = Inr s"
      "accepted env s article"
      "truthy (dict_get article ''description'')" "truthy (openai_api_key env)"
      "chat_completions_create env
            (summary_prompt (dict_get article ''title'') (dict_get article ''description'')) = Inl e"
      "netloc_of env (py_str (dict_get article ''link'')) = Inr domain"
      "main env = Inr r"
    for worksheet articles pre article post s e domain r
  proof -
    from summary_failed[OF that(6,7,8)] that(5,9)
    have "\<exists>s1. process_article env s article = Inr s1
        \<and> rows_to_add s1 = rows_to_add s @ [make_row env article ''AI summary failed.'' domain]"
      by (simp add: process_article_def accepted_def Let_def)
    then obtain s1 where s1: "process_article env s article = Inr s1"
      "rows_to_add s1 = rows_to_add s @ [make_row env article ''AI summary failed.'' domain]"
      by blast
    from main_rows_prefix[OF that(1,2,3,4) s1(1) that(10)] s1(2) show ?thesis
      by (simp add: make_row_def)
  qed
  have 5: "newsdata_fetch env = Inl x
          \<or> (\<exists>articles a. newsdata_fetch env = Inr articles \<and> a \<in> set articles
                \<and> netloc_of env (py_str (dict_get a ''link'')) = Inl x)"
    if "main env = Inl x" for x
    using main_Inl[OF that] .
  have 6: "(\<forall>x. main env = Inl x \<longrightarrow>
           main (env\<lparr>chat_completions_create := chat, openai_api_key := key\<rparr>) = Inl x)
        \<and> (\<forall>r. main env = Inr r \<longrightarrow>
             (\<exists>r'. main (env\<lparr>chat_completions_create := chat, openai_api_key := key\<rparr>) = Inr r'
                \<and> map (\<lambda>row. row[2 := PyNone]) (appended r')
                    = map (\<lambda>row. row[2 := PyNone]) (appended r)))" for chat key
    using main_same_but_summary[where env=env and chat=chat and key=key]
    by (auto split: sum.splits)
  from 1 2 3 4 5 6 show ?thesis by blast
qed

theorem summary_never_raises_witness:
  "get_ai_summary sample_env (PyStr ''mars rover'') PyNone = (''Summary not available.'', [])
   \<and> get_ai_summary (sample_env\<lparr>openai_api_key := PyNone\<rparr>) (PyStr ''gpt five'') (PyStr ''text'')
       = (''Summary not available.'', [])
   \<and> get_ai_summary sample_env (PyStr ''gpt five'') (PyStr ''text'')
       = (''AI summary failed.'', [ErrorCallingOpenAI (OtherException ''timeout'')])
   \<and> get_ai_summary answering_env (PyStr ''mars rover'') (PyStr ''text'')
       = (''A rover lands.'', [])
   \<and> main sample_env = Inr sample_run
   \<and> prefix [sample_row_a] (appended sample_run)
   \<and> sample_row_a ! 2 = PyStr ''AI summary failed.''
   \<and> (\<exists>r'. main answering_env = Inr r'
         \<and> map (\<lambda>row. row[2 := PyNone]) (appended r')
             = map (\<lambda>row. row[2 := PyNone]) (appended sample_run))"
proof -
  have 1: "\<not> truthy PyNone" by (simp add: truthy_def)
  have 2: "\<not> truthy (openai_api_key (sample_env\<lparr>openai_api_key := PyNone\<rparr>))"
    by (simp add: truthy_def)
  have 3: "truthy (PyStr ''text'')" "truthy (openai_api_key sample_env)"
    "chat_completions_create sample_env (summary_prompt (PyStr ''gpt five'') (PyStr ''text''))
       = Inl (OtherException ''timeout'')"
    by (simp_all add: truthy_def sample_env_def)
  have 4: "truthy (openai_api_key answering_env)"
    "chat_completions_create answering_env (summary_prompt (PyStr ''mars rover'') (PyStr ''text''))
       = Inr [PyStr (CHR 0x0A # '' A rover lands. ''), PyStr ''other'']"
    by (simp_all add: truthy_def sample_env_def answering_env_def)
  have 5: "strip (CHR 0x0A # '' A rover lands. '') = ''A rover lands.''" by code_simp
  have a: "get_ai_summary sample_env (PyStr ''mars rover'') PyNone = (''Summary not available.'', [])"
    using summary_never_raises[of PyNone sample_env "PyStr ''mars rover''"] 1 by blast
  have b: "get_ai_summary (sample_env\<lparr>openai_api_key := PyNone\<rparr>) (PyStr ''gpt five'') (PyStr ''text'')
       = (''Summary not available.'', [])"
    using summary_never_raises[of "PyStr ''text''" "sample_env\<lparr>openai_api_key := PyNone\<rparr>"
        "PyStr ''gpt five''"] 2 by blast
  have c: "get_ai_summary sample_env (PyStr ''gpt five'') (PyStr ''text'')
       = (''AI summary failed.'', [ErrorCallingOpenAI (OtherException ''timeout'')])"
    using summary_never_raises[of "PyStr ''text''" sample_env "PyStr ''gpt five''"] 3 by blast
  have d: "get_ai_summary answering_env (PyStr ''mars rover'') (PyStr ''text'')
       = (''A rover lands.'', [])"
    using summary_never_raises[of "PyStr ''text''" answering_env "PyStr ''mars rover''"] 3(1) 4 5
    by metis
  have h1: "sheets_connect sample_env = Inr sample_ledger"
    "newsdata_fetch sample_env
       = Inr [article_b, article_reordered, article_same_link, article_no_link, article_a]"
    by (simp_all add: sample_env_def)
  have h2: "rev [article_b, article_reordered, article_same_link, article_no_link, article_a]
      = [] @ article_a # [article_no_link, article_same_link, article_reordered, article_b]"
    by simp
  have h3: "process_articles sample_env
      (initial_state sample_ledger
        (length [article_b, article_reordered, article_same_link, article_no_link, article_a])) []
      = Inr (initial_state sample_ledger 5)"
  proof -
    have "length [article_b, article_reordered, article_same_link, article_no_link, article_a] = 5"
      by simp
    then show ?thesis by (simp only: process_articles.simps)
  qed
  have h4: "accepted sample_env (initial_state sample_ledger 5) article_a" by code_simp
  have h5: "truthy (dict_get article_a ''description'')" by code_simp
  have h6: "chat_completions_create sample_env
      (summary_prompt (dict_get article_a ''title'') (dict_get article_a ''description''))
      = Inl (OtherException ''timeout'')" by (simp add: sample_env_def)
  have h7: "netloc_of sample_env (py_str (dict_get article_a ''link'')) = Inr ''n.io''"
    by code_simp
  have h8: "make_row sample_env article_a ''AI summary failed.'' ''n.io'' = sample_row_a"
    by code_simp
  have h9: "rows_to_add (initial_state sample_ledger 5) = []" by (simp add: initial_state_def)
  from summary_never_raises[of PyNone sample_env PyNone] h1 h2 h3 h4 h5 3(2) h6 h7 sample_main
  have "prefix (rows_to_add (initial_state sample_ledger 5)
                 @ [make_row sample_env article_a ''AI summary failed.'' ''n.io''])
          (appended sample_run)
        \<and> make_row sample_env article_a ''AI summary failed.'' ''n.io'' ! 2
            = PyStr ''AI summary failed.''"
    by blast
  then have e: "prefix [sample_row_a] (appended sample_run)"
    "sample_row_a ! 2 = PyStr ''AI summary failed.''"
    by (simp_all add: h8 h9)
  have ae: "sample_env\<lparr>chat_completions_create :=
                  (\<lambda>prompt. Inr [PyStr (CHR 0x0A # '' A rover lands. ''), PyStr ''other'']),
                openai_api_key := PyStr ''sk''\<rparr> = answering_env"
    by (simp add: answering_env_def sample_env_def)
  from summary_never_raises[of PyNone sample_env PyNone] sample_main
  have "\<exists>r'. main (sample_env\<lparr>chat_completions_create :=
                  (\<lambda>prompt. Inr [PyStr (CHR 0x0A # '' A rover lands. ''), PyStr ''other'']),
                openai_api_key := PyStr ''sk''\<rparr>) = Inr r'
         \<and> map (\<lambda>row. row[2 := PyNone]) (appended r')
             = map (\<lambda>row. row[2 := PyNone]) (appended sample_run)"
    by blast
  then have f: "\<exists>r'. main answering_env = Inr r'
         \<and> map (\<lambda>row. row[2 := PyNone]) (appended r')
             = map (\<lambda>row. row[2 := PyNone]) (appended sample_run)"
    by (simp only: ae)
  from a b c d e f sample_main show ?thesis by blast
qed


section \<open>The row of an accepted article\<close>

text \<open>
  The row that lines 94 to 97 build for an accepted article whose link \<^verbatim>\<open>urlparse\<close>
  accepts: the empty string, the title, the summary, the image URL, the source id,
  the link, the favicon URL (the fixed template around the network location of the
  link), the timestamp, and ``Published''. The timestamp is what
  \<^verbatim>\<open>article.get('pubDate', now)\<close> yields.
\<close>

theorem row_schema:
  assumes "accepted env s article"
    and "netloc_of env (py_str (dict_get article ''link'')) = Inr domain"
  shows "\<exists>s'. process_article env s article = Inr s'
          \<and> rows_to_add s' = rows_to_add s @
              [[PyStr '''',
                dict_get article ''title'',
                PyStr (fst (get_ai_summary env (dict_get article ''title'')
                              (dict_get article ''description''))),
                dict_get article ''image_url'',
                dict_get article ''source_id'',
                dict_get article ''link'',
                PyStr (''https://www.google.com/s2/favicons?domain='' @ domain @ ''&sz=64''),
                (case article ''pubDate'' of
                   None \<Rightarrow> PyStr (utcnow_isoformat env)
                 | Some published \<Rightarrow> published),
                PyStr ''Published'']]"
  using assms
  by (simp add: process_article_def accepted_def Let_def make_row_def favicon_url_def
      dict_get_default_def split: prod.splits)

theorem row_schema_witness:
  "accepted sample_env (initial_state sample_ledger 5) article_a
   \<and> netloc_of sample_env (py_str (dict_get article_a ''link'')) = Inr ''n.io''
   \<and> accepted sample_env (initial_state sample_ledger 5) article_b
   \<and> netloc_of sample_env (py_str (dict_get article_b ''link'')) = Inr ''m.org''
   \<and> (\<exists>s'. process_article sample_env (initial_state sample_ledger 5) article_a = Inr s'
         \<and> rows_to_add s' = [sample_row_a])
   \<and> (\<exists>s'. process_article sample_env (initial_state sample_ledger 5) article_b = Inr s'
         \<and> rows_to_add s' = [sample_row_b])"
proof -
  have 1: "accepted sample_env (initial_state sample_ledger 5) article_a" by code_simp
  have 2: "netloc_of sample_env (py_str (dict_get article_a ''link'')) = Inr ''n.io''" by code_simp
  have 3: "accepted sample_env (initial_state sample_ledger 5) article_b" by code_simp
  have 4: "netloc_of sample_env (py_str (dict_get article_b ''link'')) = Inr ''m.org''" by code_simp
  have a: "[PyStr '''',
                dict_get article_a ''title'',
                PyStr (fst (get_ai_summary sample_env (dict_get article_a ''title'')
                              (dict_get article_a ''description''))),
                dict_get article_a ''image_url'',
                dict_get article_a ''source_id'',
                dict_get article_a ''link'',
                PyStr (''https://www.google.com/s2/favicons?domain='' @ ''n.io'' @ ''&sz=64''),
                (case article_a ''pubDate'' of
                   None \<Rightarrow> PyStr (utcnow_isoformat sample_env)
                 | Some published \<Rightarrow> published),
                PyStr ''Published''] = sample_row_a" by code_simp
  have b: "[PyStr '''',
                dict_get article_b ''title'',
                PyStr (fst (get_ai_summary sample_env (dict_get article_b ''title'')
                              (dict_get article_b ''description''))),
                dict_get article_b ''image_url'',
                dict_get article_b ''source_id'',
                dict_get article_b ''link'',
                PyStr (''https://www.google.com/s2/favicons?domain='' @ ''m.org'' @ ''&sz=64''),
                (case article_b ''pubDate'' of
                   None \<Rightarrow> PyStr (utcnow_isoformat sample_env)
                 | Some published \<Rightarrow> published),
                PyStr ''Published''] = sample_row_b" by code_simp
  have e: "rows_to_add (initial_state sample_ledger 5) = []" by (simp add: initial_state_def)
  from row_schema[OF 1 2] a e
  have x: "\<exists>s'. process_article sample_env (initial_state sample_ledger 5) article_a = Inr s'
         \<and> rows_to_add s' = [sample_row_a]" by simp
  from row_schema[OF 3 4] b e
  have y: "\<exists>s'. process_article sample_env (initial_state sample_ledger 5) article_b = Inr s'
         \<and> rows_to_add s' = [sample_row_b]" by simp
  from 1 2 3 4 x y show ?thesis by blast
qed

text \<open>
  Claim C8. The timestamp is to fall back to the current UTC time when the article
  carries no published timestamp. Line 96 does so only when the key \<^verbatim>\<open>pubDate\<close> is
  absent: for an article whose \<^verbatim>\<open>pubDate\<close> is null the default of
  \<^verbatim>\<open>dict.get\<close> is not used, and the timestamp cell of the appended row is null
  instead of the current time. The other cells of the row are as the claim says.
\<close>

theorem null_pubDate_no_fallback:
  "article_null_date ''pubDate'' = Some PyNone
   \<and> utcnow_isoformat sample_env = ''2026-11-04T00:00:00+00:00''
   \<and> main (sample_env\<lparr>newsdata_fetch := Inr [article_null_date]\<rparr>)
       = Inr \<lparr>stdout = [Starting, Connected, Fetching, Found 1, Added 1],
              appended =
                [[PyStr '''', PyStr ''quantum chip'', PyStr ''Summary not available.'', PyNone,
                  PyNone, PyStr ''https://q.net/9'',
                  PyStr ''https://www.google.com/s2/favicons?domain=q.net&sz=64'',
                  PyNone, PyStr ''Published'']]\<rparr>"
  by code_simp

section \<open>Candidates without a title\<close>

text \<open>
  Claim C10, amended. Under the scorer model a missing title (absent or null) scores 0
  against every title, without an error. So a candidate without a title, with a
  non-empty link that is not yet known and for which \<^verbatim>\<open>urlparse\<close> returns a network
  location, is accepted: its row, with a null title cell, is collected; it is among
  the rows appended when the run returns, right after the rows collected before its
  turn; and a run on a response of this one candidate returns and appends the row.
\<close>

theorem missing_title_accepted:
  assumes "token_sort_ratio env = fuzz_token_sort_ratio"
    and "dict_get article ''title'' = PyNone"
    and "truthy (dict_get article ''link'')"
    and "netloc_of env (py_str (dict_get article ''link'')) = Inr domain"
  shows "(\<forall>t. token_sort_ratio env PyNone t = 0)
       \<and> (\<forall>s. dict_get article ''link'' \<notin> existing_links s \<longrightarrow>
            (\<exists>s' row. process_article env s article = Inr s'
               \<and> rows_to_add s' = rows_to_add s @ [row] \<and> row ! 1 = PyNone
               \<and> row ! 5 = dict_get article ''link''
               \<and> existing_titles s' = insert PyNone (existing_titles s)))
       \<and> (\<forall>worksheet. sheets_connect env = Inr worksheet \<and> newsdata_fetch env = Inr [article]
             \<and> dict_get article ''link'' \<notin> PyStr ` set (col_values worksheet 6) \<longrightarrow>
            (\<exists>r row. main env = Inr r \<and> appended r = [row] \<and> row ! 1 = PyNone
               \<and> ledger_after worksheet r = worksheet @ [row]))
       \<and> (\<forall>worksheet articles pre post s r.
            sheets_connect env = Inr worksheet \<and> newsdata_fetch env = Inr articles
            \<and> rev articles = pre @ article # post
            \<and> process_articles env (initial_state worksheet (length articles)) pre = Inr s
            \<and> dict_get article ''link'' \<notin> existing_links s
            \<and> main env = Inr r \<longrightarrow>
            (\<exists>row. prefix (rows_to_add s @ [row]) (appended r) \<and> row ! 1 = PyNone
               \<and> row ! 5 = dict_get article ''link''))"
proof -
  have z: "token_sort_ratio env PyNone t = 0" for t
    by (simp add: assms(1) fuzz_token_sort_ratio_None)
  have step: "\<exists>s' row. process_article env s article = Inr s'
               \<and> rows_to_add s' = rows_to_add s @ [row] \<and> row ! 1 = PyNone
               \<and> row ! 5 = dict_get article ''link''
               \<and> existing_titles s' = insert PyNone (existing_titles s)"
    if "dict_get article ''link'' \<notin> existing_links s" for s
  proof -
    have "\<not> is_semantically_duplicate env (existing_titles s) (dict_get article ''title'')"
      by (simp add: is_semantically_duplicate_def assms(2) z SIMILARITY_THRESHOLD_def)
    with that assms(2,3,4) show ?thesis
      by (simp add: process_article_def Let_def make_row_def split: prod.splits)
  qed
  have run: "\<exists>r row. main env = Inr r \<and> appended r = [row] \<and> row ! 1 = PyNone
               \<and> ledger_after worksheet r = worksheet @ [row]"
    if "sheets_connect env = Inr worksheet" "newsdata_fetch env = Inr [article]"
      "dict_get article ''link'' \<notin> PyStr ` set (col_values worksheet 6)" for worksheet
  proof -
    from that(3) have "dict_get article ''link'' \<notin> existing_links (initial_state worksheet 1)"
      by (simp add: initial_state_def)
    from step[OF this] obtain s' row where
      "process_article env (initial_state worksheet 1) article = Inr s'"
      "rows_to_add s' = [row]" "row ! 1 = PyNone"
      by (auto simp: initial_state_def)
    with that(1,2) show ?thesis
      by (simp add: main_def ledger_after_def append_rows_def)
  qed
  have batch: "\<exists>row. prefix (rows_to_add s @ [row]) (appended r) \<and> row ! 1 = PyNone
               \<and> row ! 5 = dict_get article ''link''"
    if "sheets_connect env = Inr worksheet" "newsdata_fetch env = Inr articles"
      "rev articles = pre @ article # post"
      "process_articles env (initial_state worksheet (length articles)) pre = Inr s"
      "dict_get article ''link'' \<notin> existing_links s"
      "main env = Inr r"
    for worksheet articles pre post s r
  proof -
    from step[OF that(5)] obtain s1 row where
      s1: "process_article env s article = Inr s1" "rows_to_add s1 = rows_to_add s @ [row]"
        "row ! 1 = PyNone" "row ! 5 = dict_get article ''link''" by blast
    from main_rows_prefix[OF that(1,2,3,4) s1(1) that(6)] s1(2,3,4) show ?thesis by auto
  qed
  from z step run batch show ?thesis by blast
qed

theorem missing_title_accepted_witness:
  "token_sort_ratio sample_env = fuzz_token_sort_ratio
   \<and> dict_get article_no_title ''title'' = PyNone
   \<and> truthy (dict_get article_no_title ''link'')
   \<and> netloc_of sample_env (py_str (dict_get article_no_title ''link'')) = Inr ''q.net''
   \<and> token_sort_ratio sample_env PyNone (PyStr ''old ai'') = 0
   \<and> main (sample_env\<lparr>newsdata_fetch := Inr [article_no_title]\<rparr>)
       = Inr \<lparr>stdout = [Starting, Connected, Fetching, Found 1, Added 1],
              appended =
                [[PyStr '''', PyNone, PyStr ''Summary not available.'', PyNone, PyNone,
                  PyStr ''https://q.net/7'',
                  PyStr ''https://www.google.com/s2/favicons?domain=q.net&sz=64'',
                  PyStr ''2026-11-04T00:00:00+00:00'', PyStr ''Published'']]\<rparr>"
proof -
  have 1: "token_sort_ratio sample_env = fuzz_token_sort_ratio" by (simp add: sample_env_def)
  have 2: "dict_get article_no_title ''title'' = PyNone" by code_simp
  have 3: "truthy (dict_get article_no_title ''link'')" by code_simp
  have 4: "netloc_of sample_env (py_str (dict_get article_no_title ''link'')) = Inr ''q.net''"
    by code_simp
  have 5: "main (sample_env\<lparr>newsdata_fetch := Inr [article_no_title]\<rparr>)
       = Inr \<lparr>stdout = [Starting, Connected, Fetching, Found 1, Added 1],
              appended =
                [[PyStr '''', PyNone, PyStr ''Summary not available.'', PyNone, PyNone,
                  PyStr ''https://q.net/7'',
                  PyStr ''https://www.google.com/s2/favicons?domain=q.net&sz=64'',
                  PyStr ''2026-11-04T00:00:00+00:00'', PyStr ''Published'']]\<rparr>"
    by code_simp
  from missing_title_accepted[OF 1 2 3 4]
  have "token_sort_ratio sample_env PyNone (PyStr ''old ai'') = 0" by blast
  with 1 2 3 4 5 show ?thesis by blast
qed

text \<open>
  Claim C10 as stated fails for a link that \<^verbatim>\<open>urlparse\<close> refuses: the candidate
  has no title and a non-empty link that is not in the ledger, it passes both tests of
  the filter, and the \<^verbatim>\<open>ValueError\<close> of line 95 leaves \<^verbatim>\<open>main\<close>: nothing is
  appended.
\<close>

theorem missing_title_bad_link_aborts:
  "dict_get article_bad_link ''title'' = PyNone
   \<and> dict_get article_bad_link ''link'' = PyStr ''http://[''
   \<and> col_values sample_ledger 6 = [''https://n.io/0'']
   \<and> main (sample_env\<lparr>newsdata_fetch := Inr [article_bad_link]\<rparr>)
       = Inl (ValueError ''Invalid IPv6 URL'')"
  by code_simp

end
